theory Spec2Isabelle
  imports Complex_Main "HOL-Library.Word"
begin

section \<open>JavaScript strings\<close>

text \<open>
  A JavaScript string is a sequence of 16-bit code units. \<open>js\<close> turns a literal of the
  theory (ASCII) into such a string.
\<close>

type_synonym code_unit = "16 word"
type_synonym jsstring = "code_unit list"

definition js :: "string \<Rightarrow> jsstring" where
  "js s = map of_char s"

text \<open>
  The code units that \<^verbatim>\<open>String.prototype.trim\<close> removes and that \<^verbatim>\<open>\s\<close> matches in a
  regular expression: the WhiteSpace and LineTerminator productions of ECMAScript.
\<close>

definition is_space :: "code_unit \<Rightarrow> bool" where
  "is_space c = (c \<in> set [0x09, 0x0A, 0x0B, 0x0C, 0x0D, 0x20, 0xA0, 0x1680,
      0x2000, 0x2001, 0x2002, 0x2003, 0x2004, 0x2005, 0x2006, 0x2007, 0x2008, 0x2009, 0x200A,
      0x2028, 0x2029, 0x202F, 0x205F, 0x3000, 0xFEFF])"

definition ltrim :: "jsstring \<Rightarrow> jsstring" where
  "ltrim s = dropWhile is_space s"

definition rtrim :: "jsstring \<Rightarrow> jsstring" where
  "rtrim s = rev (dropWhile is_space (rev s))"

text \<open>\<^verbatim>\<open>text.trim()\<close>\<close>

definition trim :: "jsstring \<Rightarrow> jsstring" where
  "trim s = rtrim (ltrim s)"

text \<open>\<^verbatim>\<open>s.startsWith(p)\<close>\<close>

definition startsWith :: "jsstring \<Rightarrow> jsstring \<Rightarrow> bool" where
  "startsWith s p = (take (length p) s = p)"

text \<open>
  \<^verbatim>\<open>s.replace(/^```json\s*/, '')\<close> and \<^verbatim>\<open>s.replace(/^```\s*/, '')\<close>, with \<open>p\<close> the literal
  part of the pattern: the pattern is anchored at the start, \<^verbatim>\<open>\s*\<close> is greedy and nothing
  follows it, so the match is \<open>p\<close> and the whole run of white space after it. A string that
  does not start with \<open>p\<close> has no match and is returned as it is.
\<close>

definition replace_opening :: "jsstring \<Rightarrow> jsstring \<Rightarrow> jsstring" where
  "replace_opening p s = (if startsWith s p then ltrim (drop (length p) s) else s)"

text \<open>
  \<^verbatim>\<open>s.replace(/\s*```$/, '')\<close>. The expression has no \<^verbatim>\<open>g\<close> and no \<^verbatim>\<open>m\<close> flag: the
  leftmost match is replaced and \<^verbatim>\<open>$\<close> is the end of the string. The matcher tries each
  start position from the left; at a position the pattern matches when the rest of the string is
  a run of white space followed by exactly three backticks (a shorter run of white space cannot
  be followed by a backtick, so backtracking finds nothing more). The match reaches the end of
  the string, so replacing it cuts the string at the start position.
\<close>

fun replace_closing :: "jsstring \<Rightarrow> jsstring" where
  "replace_closing [] = []"
| "replace_closing (c # cs) =
     (if ltrim (c # cs) = js ''```'' then [] else c # replace_closing cs)"

text \<open>
  Lines 194 to 201 of \<^verbatim>\<open>analyzeReceipt\<close>: the text handed to \<^verbatim>\<open>JSON.parse\<close>.
\<close>

definition cleanedText :: "jsstring \<Rightarrow> jsstring" where
  "cleanedText text =
     (let t = trim text in
      if startsWith t (js ''```json'') then replace_closing (replace_opening (js ''```json'') t)
      else if startsWith t (js ''```'') then replace_closing (replace_opening (js ''```'') t)
      else t)"

section \<open>JavaScript values\<close>

text \<open>
  A number is an IEEE double. The program never computes with numbers; it tests them for
  truthiness and hands them on. A finite double is kept as the rational it denotes (\<open>Finite 0\<close>
  stands for both zeros, which are both falsy).
\<close>

datatype number = Finite rat | PosInfinity | NegInfinity | NaN

text \<open>
  The values \<^verbatim>\<open>JSON.parse\<close> returns, and \<^verbatim>\<open>undefined\<close>, which reading a missing property
  gives. An object is the list of its own properties in insertion order; \<open>map_of\<close> reads it.
\<close>

datatype jsvalue =
    JUndefined
  | JNull
  | JBool bool
  | JNum number
  | JStr jsstring
  | JArr "jsvalue list"
  | JObj "(jsstring \<times> jsvalue) list"

datatype exn =
    SyntaxError
  | TypeError
  | Error jsstring
  | Rejected jsstring

definition truthy_number :: "number \<Rightarrow> bool" where
  "truthy_number n = (case n of Finite r \<Rightarrow> r \<noteq> 0 | NaN \<Rightarrow> False | _ \<Rightarrow> True)"

text \<open>ToBoolean: what \<^verbatim>\<open>!v\<close>, \<^verbatim>\<open>v || d\<close> and \<^verbatim>\<open>v && e\<close> test.\<close>

fun truthy :: "jsvalue \<Rightarrow> bool" where
  "truthy JUndefined = False"
| "truthy JNull = False"
| "truthy (JBool b) = b"
| "truthy (JNum n) = truthy_number n"
| "truthy (JStr s) = (s \<noteq> [])"
| "truthy (JArr xs) = True"
| "truthy (JObj kvs) = True"

text \<open>\<^verbatim>\<open>v || d\<close>\<close>

definition or_else :: "jsvalue \<Rightarrow> jsvalue \<Rightarrow> jsvalue" where
  "or_else v d = (if truthy v then v else d)"

text \<open>
  The property read \<^verbatim>\<open>v.k\<close>, for the names this program reads (\<^verbatim>\<open>merchant\<close>, \<^verbatim>\<open>date\<close>,
  \<^verbatim>\<open>total\<close>, \<^verbatim>\<open>subtotal\<close>, \<^verbatim>\<open>tax\<close>, \<^verbatim>\<open>items\<close>, \<^verbatim>\<open>category\<close>, \<^verbatim>\<open>name\<close>, \<^verbatim>\<open>price\<close>,
  \<^verbatim>\<open>length\<close>): none of them is defined by a built-in prototype, so a value has the property
  only as its own. Reading a property of \<^verbatim>\<open>null\<close> or \<^verbatim>\<open>undefined\<close> throws a TypeError.
\<close>

fun get_prop :: "jsvalue \<Rightarrow> jsstring \<Rightarrow> exn + jsvalue" where
  "get_prop JUndefined k = Inl TypeError"
| "get_prop JNull k = Inl TypeError"
| "get_prop (JObj kvs) k = Inr (case map_of kvs k of None \<Rightarrow> JUndefined | Some v \<Rightarrow> v)"
| "get_prop (JArr xs) k =
     Inr (if k = js ''length'' then JNum (Finite (of_nat (length xs))) else JUndefined)"
| "get_prop (JStr s) k =
     Inr (if k = js ''length'' then JNum (Finite (of_nat (length s))) else JUndefined)"
| "get_prop (JBool b) k = Inr JUndefined"
| "get_prop (JNum n) k = Inr JUndefined"

text \<open>Sequencing of steps that may throw: the first exception ends the sequence.\<close>

definition and_then :: "exn + 'a \<Rightarrow> ('a \<Rightarrow> exn + 'b) \<Rightarrow> exn + 'b" where
  "and_then r f = (case r of Inl e \<Rightarrow> Inl e | Inr x \<Rightarrow> f x)"

text \<open>
  What the program takes from the JavaScript platform and does not define itself:
  \<^verbatim>\<open>JSON.parse\<close> (\<open>None\<close> when it throws a SyntaxError) and the decimal text of a number.
\<close>

record platform =
  JSON_parse :: "jsstring \<Rightarrow> jsvalue option"
  Number_toString :: "number \<Rightarrow> jsstring"

text \<open>
  ToString, which a template literal applies to each \<^verbatim>\<open>${...}\<close>. An array is joined with
  commas, \<^verbatim>\<open>null\<close> and \<^verbatim>\<open>undefined\<close> elements giving the empty string. An object goes through
  OrdinaryToPrimitive: a parsed object with no own \<^verbatim>\<open>toString\<close> property inherits the one
  of \<^verbatim>\<open>Object.prototype\<close>; with an own \<^verbatim>\<open>toString\<close> property (which holds a parsed value,
  never a function) neither \<^verbatim>\<open>toString\<close> nor \<^verbatim>\<open>valueOf\<close> gives a primitive, and the
  conversion throws a TypeError.
\<close>

fun to_string :: "platform \<Rightarrow> jsvalue \<Rightarrow> exn + jsstring"
  and join_comma :: "platform \<Rightarrow> jsvalue list \<Rightarrow> exn + jsstring" where
  "to_string P JUndefined = Inr (js ''undefined'')"
| "to_string P JNull = Inr (js ''null'')"
| "to_string P (JBool b) = Inr (if b then js ''true'' else js ''false'')"
| "to_string P (JNum n) = Inr (Number_toString P n)"
| "to_string P (JStr s) = Inr s"
| "to_string P (JArr xs) = join_comma P xs"
| "to_string P (JObj kvs) =
     (if js ''toString'' \<in> fst ` set kvs then Inl TypeError else Inr (js ''[object Object]''))"
| "join_comma P [] = Inr []"
| "join_comma P (x # xs) =
     and_then (if x = JUndefined \<or> x = JNull then Inr [] else to_string P x) (\<lambda>a.
       if xs = [] then Inr a
       else and_then (join_comma P xs) (\<lambda>rest. Inr (a @ js '','' @ rest)))"

section \<open>The application state and what a run does\<close>

record account =
  user_id :: jsstring
  email :: jsstring

text \<open>The state cells of \<^verbatim>\<open>App\<close>; \<open>None\<close> is \<^verbatim>\<open>null\<close>.\<close>

record app_state =
  user :: "account option"
  loading :: bool
  receiptData :: "jsvalue option"
  isAnalyzing :: bool

record File =
  file_name :: jsstring
  file_type :: jsstring

text \<open>
  How the collaborators answer during one run: each awaited promise either resolves (\<open>Inr\<close>)
  or rejects (\<open>Inl\<close>). \<open>now_iso\<close> is \<^verbatim>\<open>new Date().toISOString()\<close>.
\<close>

record run_env =
  upload_result :: "exn + jsstring"
  generateText_result :: "exn + jsstring"
  create_result :: "exn + unit"
  now_iso :: jsstring

text \<open>
  The argument of \<^verbatim>\<open>blink.db.receipts.create\<close>. \<open>row_items\<close> is the value whose
  \<^verbatim>\<open>JSON.stringify\<close> text is stored.
\<close>

record db_row =
  row_userId :: jsstring
  row_merchant :: jsvalue
  row_date :: jsvalue
  row_total :: jsvalue
  row_subtotal :: jsvalue
  row_tax :: jsvalue
  row_items :: jsvalue
  row_category :: jsvalue
  row_imageUrl :: jsstring
  row_createdAt :: jsstring

text \<open>
  The interpolated parts of the chat prompt, in the order of the template; the fixed text
  between them is not reproduced.
\<close>

record chat_prompt =
  prompt_merchant :: jsstring
  prompt_date :: jsstring
  prompt_total :: jsstring
  prompt_items :: jsstring
  prompt_category :: jsstring
  prompt_question :: jsstring

text \<open>
  A call of \<^verbatim>\<open>blink.ai.generateText\<close>: the extraction request (the fixed instruction text and
  the image at the given URL) or a chat prompt.
\<close>

datatype request = ExtractionRequest jsstring | ChatRequest chat_prompt

datatype notification = Notification (title: jsstring) (description: jsstring) (destructive: bool)

datatype log_arg = LogExn exn | LogText jsstring

text \<open>Everything a run does that is visible outside it, in the order it happens.\<close>

datatype event =
    SetIsAnalyzing bool
  | StorageUpload File jsstring
  | GenerateText request
  | SetReceiptData jsvalue
  | DbCreate db_row
  | ConsoleWarn jsstring exn
  | ConsoleError jsstring log_arg
  | Toast notification

fun apply_event :: "app_state \<Rightarrow> event \<Rightarrow> app_state" where
  "apply_event st (SetIsAnalyzing b) = st\<lparr>isAnalyzing := b\<rparr>"
| "apply_event st (SetReceiptData v) = st\<lparr>receiptData := Some v\<rparr>"
| "apply_event st (StorageUpload f p) = st"
| "apply_event st (GenerateText r) = st"
| "apply_event st (DbCreate r) = st"
| "apply_event st (ConsoleWarn m e) = st"
| "apply_event st (ConsoleError m a) = st"
| "apply_event st (Toast n) = st"

subsection \<open>The Normalizer\<close>

text \<open>Lines 205 to 208: \<^verbatim>\<open>!parsedData.merchant || !parsedData.total || !parsedData.items\<close>.\<close>

definition required_fields :: "jsvalue \<Rightarrow> exn + unit" where
  "required_fields parsedData =
     and_then (get_prop parsedData (js ''merchant'')) (\<lambda>m.
       if \<not> truthy m then Inl (Error (js ''Missing required fields in AI response''))
       else and_then (get_prop parsedData (js ''total'')) (\<lambda>t.
         if \<not> truthy t then Inl (Error (js ''Missing required fields in AI response''))
         else and_then (get_prop parsedData (js ''items'')) (\<lambda>i.
           if \<not> truthy i then Inl (Error (js ''Missing required fields in AI response''))
           else Inr ())))"

text \<open>Lines 194 to 208: clean the text, parse it, check the required fields.\<close>

definition normalize :: "platform \<Rightarrow> jsstring \<Rightarrow> exn + jsvalue" where
  "normalize P text =
     (case JSON_parse P (cleanedText text) of
        None \<Rightarrow> Inl SyntaxError
      | Some parsedData \<Rightarrow> and_then (required_fields parsedData) (\<lambda>_. Inr parsedData))"

subsection \<open>The extraction flow\<close>

text \<open>The object literal of lines 214 to 225, its properties evaluated in order.\<close>

definition create_argument :: "app_state \<Rightarrow> run_env \<Rightarrow> jsstring \<Rightarrow> jsvalue \<Rightarrow> exn + db_row" where
  "create_argument st env publicUrl parsedData =
     (case user st of
        None \<Rightarrow> Inl TypeError
      | Some u \<Rightarrow>
          and_then (get_prop parsedData (js ''merchant'')) (\<lambda>m.
          and_then (get_prop parsedData (js ''date'')) (\<lambda>d.
          and_then (get_prop parsedData (js ''total'')) (\<lambda>t.
          and_then (get_prop parsedData (js ''subtotal'')) (\<lambda>s.
          and_then (get_prop parsedData (js ''tax'')) (\<lambda>x.
          and_then (get_prop parsedData (js ''items'')) (\<lambda>i.
          and_then (get_prop parsedData (js ''category'')) (\<lambda>c.
            Inr \<lparr>row_userId = user_id u, row_merchant = m, row_date = d, row_total = t,
                 row_subtotal = or_else s (JNum (Finite 0)), row_tax = or_else x (JNum (Finite 0)),
                 row_items = i, row_category = or_else c (JStr (js ''Other'')),
                 row_imageUrl = publicUrl, row_createdAt = now_iso env\<rparr>))))))))"

text \<open>Lines 213 to 229: the inner \<^verbatim>\<open>try\<close> around the database call, and its \<^verbatim>\<open>catch\<close>.\<close>

definition store_receipt :: "app_state \<Rightarrow> run_env \<Rightarrow> jsstring \<Rightarrow> jsvalue \<Rightarrow> event list" where
  "store_receipt st env publicUrl parsedData =
     (case create_argument st env publicUrl parsedData of
        Inl e \<Rightarrow> [ConsoleWarn (js ''Failed to store receipt in database:'') e]
      | Inr row \<Rightarrow>
          (case create_result env of
             Inl e \<Rightarrow> [DbCreate row, ConsoleWarn (js ''Failed to store receipt in database:'') e]
           | Inr _ \<Rightarrow> [DbCreate row]))"

text \<open>The argument of the \<^verbatim>\<open>toast\<close> call of lines 231 to 234.\<close>

definition success_toast :: "platform \<Rightarrow> jsvalue \<Rightarrow> exn + notification" where
  "success_toast P parsedData =
     and_then (get_prop parsedData (js ''items'')) (\<lambda>i.
     and_then (get_prop i (js ''length'')) (\<lambda>n.
     and_then (to_string P n) (\<lambda>count.
     and_then (get_prop parsedData (js ''merchant'')) (\<lambda>m.
     and_then (to_string P m) (\<lambda>name.
       Inr (Notification (js ''Receipt analyzed successfully!'')
              (js ''Found '' @ count @ js '' items from '' @ name) False))))))"

text \<open>Lines 235 to 244: the \<^verbatim>\<open>catch (parseError)\<close> block.\<close>

definition parse_failed :: "exn \<Rightarrow> jsstring \<Rightarrow> jsstring \<Rightarrow> event list" where
  "parse_failed parseError text cleaned =
     [ConsoleError (js ''Failed to parse AI response:'') (LogExn parseError),
      ConsoleError (js ''Raw AI response:'') (LogText text),
      ConsoleError (js ''Cleaned text:'') (LogText cleaned),
      Toast (Notification (js ''Analysis failed'')
               (js ''Could not parse the receipt data. Please try again.'') True)]"

text \<open>Lines 245 to 251: the outer \<^verbatim>\<open>catch (error)\<close> block.\<close>

definition analysis_failed :: "exn \<Rightarrow> event list" where
  "analysis_failed error =
     [ConsoleError (js ''Receipt analysis failed:'') (LogExn error),
      Toast (Notification (js ''Analysis failed'')
               (js ''Failed to analyze the receipt. Please try again.'') True)]"

text \<open>Lines 193 to 244: what happens once the completion has returned \<open>text\<close>.\<close>

definition handle_response :: "platform \<Rightarrow> run_env \<Rightarrow> app_state \<Rightarrow> jsstring \<Rightarrow> jsstring \<Rightarrow> event list" where
  "handle_response P env st publicUrl text =
     (case normalize P text of
        Inl e \<Rightarrow> parse_failed e text (cleanedText text)
      | Inr parsedData \<Rightarrow>
          SetReceiptData parsedData # store_receipt st env publicUrl parsedData @
          (case success_toast P parsedData of
             Inl e \<Rightarrow> parse_failed e text (cleanedText text)
           | Inr n \<Rightarrow> [Toast n]))"

text \<open>
  \<^verbatim>\<open>analyzeReceipt\<close>, lines 148 to 255. Each \<^verbatim>\<open>await\<close> suspends the function until the
  promise settles, so the events of a run that ends are this list; \<open>st\<close> is the state the
  closure was created in.
\<close>

definition analyzeReceipt_events :: "platform \<Rightarrow> run_env \<Rightarrow> app_state \<Rightarrow> File \<Rightarrow> event list" where
  "analyzeReceipt_events P env st f =
     SetIsAnalyzing True #
     StorageUpload f (js ''receipts/'' @ file_name f) #
     (case upload_result env of
        Inl e \<Rightarrow> analysis_failed e
      | Inr publicUrl \<Rightarrow>
          GenerateText (ExtractionRequest publicUrl) #
          (case generateText_result env of
             Inl e \<Rightarrow> analysis_failed e
           | Inr text \<Rightarrow> handle_response P env st publicUrl text)) @
     [SetIsAnalyzing False]"

definition analyzeReceipt :: "platform \<Rightarrow> run_env \<Rightarrow> app_state \<Rightarrow> File \<Rightarrow> app_state \<times> event list" where
  "analyzeReceipt P env st f =
     (foldl apply_event st (analyzeReceipt_events P env st f), analyzeReceipt_events P env st f)"

subsection \<open>The chat bridge\<close>

text \<open>\<^verbatim>\<open>`${item.name} - $${item.price}`\<close>\<close>

definition item_text :: "platform \<Rightarrow> jsvalue \<Rightarrow> exn + jsstring" where
  "item_text P item =
     and_then (get_prop item (js ''name'')) (\<lambda>n.
     and_then (to_string P n) (\<lambda>a.
     and_then (get_prop item (js ''price'')) (\<lambda>p.
     and_then (to_string P p) (\<lambda>b. Inr (a @ js '' - $'' @ b)))))"

fun map_item_text :: "platform \<Rightarrow> jsvalue list \<Rightarrow> exn + jsstring list" where
  "map_item_text P [] = Inr []"
| "map_item_text P (x # xs) =
     and_then (item_text P x) (\<lambda>a. and_then (map_item_text P xs) (\<lambda>r. Inr (a # r)))"

fun join_with :: "jsstring \<Rightarrow> jsstring list \<Rightarrow> jsstring" where
  "join_with sep [] = []"
| "join_with sep [x] = x"
| "join_with sep (x # y # ys) = x @ sep @ join_with sep (y # ys)"

text \<open>
  \<^verbatim>\<open>v.map(...).join(', ')\<close>: only an array has a \<^verbatim>\<open>map\<close> method; on any other value the call
  throws a TypeError.
\<close>

definition items_text :: "platform \<Rightarrow> jsvalue \<Rightarrow> exn + jsstring" where
  "items_text P v =
     (case v of
        JArr xs \<Rightarrow> and_then (map_item_text P xs) (\<lambda>texts. Inr (join_with (js '', '') texts))
      | _ \<Rightarrow> Inl TypeError)"

text \<open>The template literal of lines 264 to 275.\<close>

definition build_prompt :: "platform \<Rightarrow> jsvalue \<Rightarrow> jsstring \<Rightarrow> exn + chat_prompt" where
  "build_prompt P data message =
     and_then (get_prop data (js ''merchant'')) (\<lambda>m. and_then (to_string P m) (\<lambda>pm.
     and_then (get_prop data (js ''date'')) (\<lambda>d. and_then (to_string P d) (\<lambda>pd.
     and_then (get_prop data (js ''total'')) (\<lambda>t. and_then (to_string P t) (\<lambda>pt.
     and_then (get_prop data (js ''items'')) (\<lambda>i. and_then (items_text P i) (\<lambda>pi.
     and_then (get_prop data (js ''category'')) (\<lambda>c. and_then (to_string P c) (\<lambda>pc.
       Inr \<lparr>prompt_merchant = pm, prompt_date = pd, prompt_total = pt, prompt_items = pi,
            prompt_category = pc, prompt_question = message\<rparr>))))))))))"

text \<open>\<^verbatim>\<open>handleChatMessage\<close>, lines 257 to 283: the reply and the events of the call.\<close>

definition handleChatMessage :: "platform \<Rightarrow> run_env \<Rightarrow> app_state \<Rightarrow> jsstring \<Rightarrow> jsstring \<times> event list" where
  "handleChatMessage P env st message =
     (if (case receiptData st of None \<Rightarrow> True | Some data \<Rightarrow> \<not> truthy data)
      then (js ''Please upload a receipt first to start chatting about it.'', [])
      else
        (case build_prompt P (the (receiptData st)) message of
           Inl e \<Rightarrow>
             (js ''Sorry, I encountered an error processing your message. Please try again.'',
              [ConsoleError (js ''Chat message failed:'') (LogExn e)])
         | Inr p \<Rightarrow>
             (case generateText_result env of
                Inl e \<Rightarrow>
                  (js ''Sorry, I encountered an error processing your message. Please try again.'',
                   [GenerateText (ChatRequest p), ConsoleError (js ''Chat message failed:'') (LogExn e)])
              | Inr text \<Rightarrow> (text, [GenerateText (ChatRequest p)]))))"

section \<open>File intake\<close>

text \<open>The state of \<^verbatim>\<open>ReceiptUpload\<close> and what its handlers do besides updating it.\<close>

record upload_state =
  dragActive :: bool
  selectedFile :: "File option"

datatype intake_event = PreventDefault | StopPropagation | OnUpload File

text \<open>
  \<^verbatim>\<open>files && files[0]\<close>: the file list of the event may be \<^verbatim>\<open>null\<close> (\<open>None\<close>) or empty.
\<close>

definition first_file :: "File list option \<Rightarrow> File option" where
  "first_file files = (case files of None \<Rightarrow> None | Some [] \<Rightarrow> None | Some (f # _) \<Rightarrow> Some f)"

definition handleDrag :: "jsstring \<Rightarrow> upload_state \<Rightarrow> upload_state \<times> intake_event list" where
  "handleDrag event_type st =
     (if event_type = js ''dragenter'' \<or> event_type = js ''dragover'' then st\<lparr>dragActive := True\<rparr>
      else if event_type = js ''dragleave'' then st\<lparr>dragActive := False\<rparr>
      else st,
      [PreventDefault, StopPropagation])"

definition handleDrop :: "File list option \<Rightarrow> upload_state \<Rightarrow> upload_state \<times> intake_event list" where
  "handleDrop files st =
     (case first_file files of
        None \<Rightarrow> (st\<lparr>dragActive := False\<rparr>, [PreventDefault, StopPropagation])
      | Some f \<Rightarrow>
          if startsWith (file_type f) (js ''image/'')
          then (st\<lparr>dragActive := False, selectedFile := Some f\<rparr>,
                [PreventDefault, StopPropagation, OnUpload f])
          else (st\<lparr>dragActive := False\<rparr>, [PreventDefault, StopPropagation]))"

definition handleFileSelect :: "File list option \<Rightarrow> upload_state \<Rightarrow> upload_state \<times> intake_event list" where
  "handleFileSelect files st =
     (case first_file files of
        None \<Rightarrow> (st, [])
      | Some f \<Rightarrow> (st\<lparr>selectedFile := Some f\<rparr>, [OnUpload f]))"

definition clearFile :: "upload_state \<Rightarrow> upload_state" where
  "clearFile st = st\<lparr>selectedFile := None\<rparr>"

section \<open>The renderer\<close>

text \<open>The props of \<^verbatim>\<open>ReceiptAnalysis\<close>, as its interfaces declare them.\<close>

record ReceiptItem =
  name :: jsstring
  price :: number
  quantity :: "number option"

record ReceiptData =
  merchant :: jsstring
  date :: jsstring
  total :: number
  subtotal :: "number option"
  tax :: "number option"
  items :: "ReceiptItem list"
  category :: "jsstring option"

text \<open>
  What a place of the card holds. An amount \<open>x\<close> is shown as \<^verbatim>\<open>$\<close> followed by
  \<^verbatim>\<open>x.toFixed(2)\<close>; the digits are not modelled.
\<close>

datatype node =
    Nothing
  | NumberText number
  | Badge jsstring
  | QuantityNote number
  | AmountLine jsstring number
  | Separator
  | TotalLine number

text \<open>
  \<^verbatim>\<open>{v && (...)}\<close> for an optional number: an absent value renders nothing, a truthy one
  renders the element, and a falsy number (\<^verbatim>\<open>0\<close>, \<^verbatim>\<open>NaN\<close>) is itself the value of the
  expression, which React renders as text.
\<close>

definition when_number :: "number option \<Rightarrow> (number \<Rightarrow> node) \<Rightarrow> node" where
  "when_number v element =
     (case v of None \<Rightarrow> Nothing | Some n \<Rightarrow> if truthy_number n then element n else NumberText n)"

text \<open>The same for an optional string: the empty string renders nothing.\<close>

definition when_string :: "jsstring option \<Rightarrow> (jsstring \<Rightarrow> node) \<Rightarrow> node" where
  "when_string v element =
     (case v of None \<Rightarrow> Nothing | Some s \<Rightarrow> if s \<noteq> [] then element s else Nothing)"

record item_row =
  row_name :: jsstring
  row_quantity :: node
  row_price :: number

record analysis_card =
  merchant_tile :: jsstring
  date_tile :: jsstring
  total_tile :: number
  category_badge :: node
  item_rows :: "item_row list"
  totals_breakdown :: "node list"

datatype view = Skeleton | UploadPrompt | Analysis analysis_card

text \<open>Lines 134 to 155: the totals breakdown.\<close>

definition totals :: "ReceiptData \<Rightarrow> node list" where
  "totals data =
     [when_number (subtotal data) (AmountLine (js ''Subtotal'')),
      when_number (tax data) (AmountLine (js ''Tax'')),
      Separator,
      TotalLine (total data)]"

definition render_item :: "ReceiptItem \<Rightarrow> item_row" where
  "render_item item =
     \<lparr>row_name = name item, row_quantity = when_number (quantity item) QuantityNote,
      row_price = price item\<rparr>"

definition ReceiptAnalysis :: "ReceiptData option \<Rightarrow> bool \<Rightarrow> view" where
  "ReceiptAnalysis data isLoading =
     (if isLoading then Skeleton
      else case data of
        None \<Rightarrow> UploadPrompt
      | Some d \<Rightarrow>
          Analysis \<lparr>merchant_tile = merchant d, date_tile = date d, total_tile = total d,
                    category_badge = when_string (category d) Badge,
                    item_rows = map render_item (items d),
                    totals_breakdown = totals d\<rparr>)"

section \<open>Views of a run\<close>

text \<open>The updates of the analyzing flag and of the record among the events, in order.\<close>

fun flag_updates :: "event list \<Rightarrow> bool list" where
  "flag_updates [] = []"
| "flag_updates (SetIsAnalyzing b # es) = b # flag_updates es"
| "flag_updates (e # es) = flag_updates es"

fun published :: "event list \<Rightarrow> jsvalue list" where
  "published [] = []"
| "published (SetReceiptData v # es) = v # published es"
| "published (e # es) = published es"

text \<open>The collaborator calls and the state replacement of a run, as steps.\<close>

datatype step = UploadStep | CompletionStep | PublishStep | PersistStep

fun steps :: "event list \<Rightarrow> step list" where
  "steps [] = []"
| "steps (StorageUpload f p # es) = UploadStep # steps es"
| "steps (GenerateText r # es) = CompletionStep # steps es"
| "steps (SetReceiptData v # es) = PublishStep # steps es"
| "steps (DbCreate r # es) = PersistStep # steps es"
| "steps (e # es) = steps es"

fun notifications :: "event list \<Rightarrow> notification list" where
  "notifications [] = []"
| "notifications (Toast n # es) = n # notifications es"
| "notifications (e # es) = notifications es"

text \<open>
  A platform known on finitely many inputs, for the examples: \<^verbatim>\<open>JSON.parse\<close> accepts the
  listed texts and no other, and the listed numbers have the listed decimal text.
\<close>

definition table_platform :: "(jsstring \<times> jsvalue) list \<Rightarrow> (number \<times> jsstring) list \<Rightarrow> platform" where
  "table_platform texts numbers =
     \<lparr>JSON_parse = map_of texts,
      Number_toString = case_option (js ''?'') id \<circ> map_of numbers\<rparr>"

section \<open>Notions the properties are stated with\<close>

text \<open>
  A text whose first code unit after leading white space is an opening brace. Every text that
  is a JSON object is of this form.
\<close>

definition begins_object :: "jsstring \<Rightarrow> bool" where
  "begins_object t = (case ltrim t of [] \<Rightarrow> False | c # _ \<Rightarrow> c = 0x7B)"

text \<open>The object has the property, and its value is truthy.\<close>

definition has_truthy :: "(jsstring \<times> jsvalue) list \<Rightarrow> jsstring \<Rightarrow> bool" where
  "has_truthy kvs k = (case map_of kvs k of None \<Rightarrow> False | Some v \<Rightarrow> truthy v)"

text \<open>A signed-in idle state, an image file and a run environment, for the examples.\<close>

definition signed_in :: app_state where
  "signed_in = \<lparr>user = Some \<lparr>user_id = js ''u1'', email = js ''u1@example.org''\<rparr>,
                 loading = False, receiptData = None, isAnalyzing = False\<rparr>"

definition photo :: File where
  "photo = \<lparr>file_name = js ''a.jpg'', file_type = js ''image/jpeg''\<rparr>"

definition answers :: "exn + jsstring \<Rightarrow> exn + jsstring \<Rightarrow> exn + unit \<Rightarrow> run_env" where
  "answers u g c = \<lparr>upload_result = u, generateText_result = g, create_result = c,
                    now_iso = js ''2024-01-02T00:00:00.000Z''\<rparr>"

text \<open>
  A receipt with two items, the text of its JSON form, that text in a fence, and a platform
  that parses the text and prints the numbers that occur.
\<close>

definition corner_store :: jsvalue where
  "corner_store =
     JObj [(js ''merchant'', JStr (js ''Corner Store'')), (js ''date'', JStr (js ''01/02/2024'')),
           (js ''total'', JNum (Finite (25 / 2))),
           (js ''items'',
            JArr [JObj [(js ''name'', JStr (js ''Milk'')), (js ''price'', JNum (Finite (7 / 2)))],
                  JObj [(js ''name'', JStr (js ''Bread'')), (js ''price'', JNum (Finite 9))]])]"

definition corner_store_text :: jsstring where
  "corner_store_text =
     js ''{\"merchant\":\"Corner Store\",\"date\":\"01/02/2024\",\"total\":12.5,\"items\":[{\"name\":\"Milk\",\"price\":3.5},{\"name\":\"Bread\",\"price\":9.0}]}''"

definition corner_store_response :: jsstring where
  "corner_store_response = js ''```json'' @ [0x0A] @ corner_store_text @ [0x0A] @ js ''```''"

definition corner_store_platform :: platform where
  "corner_store_platform =
     table_platform [(corner_store_text, corner_store)]
       [(Finite 2, js ''2''), (Finite (7 / 2), js ''3.5''), (Finite 9, js ''9''),
        (Finite (25 / 2), js ''12.5'')]"

section \<open>Cleaning the response text\<close>

lemma backtick_not_space: "\<not> is_space 0x60"
  by (simp add: is_space_def)

lemma fence_eq: "js ''```'' = [0x60, 0x60, 0x60]"
  by (simp add: js_def)

lemma fence_json_eq: "js ''```json'' = [0x60, 0x60, 0x60, 0x6A, 0x73, 0x6F, 0x6E]"
  by (simp add: js_def)

lemma ltrim_append_nonspace:
  "ys \<noteq> [] \<Longrightarrow> \<not> is_space (hd ys) \<Longrightarrow> ltrim (xs @ ys) = ltrim xs @ ys"
  by (induction xs) (auto simp: ltrim_def neq_Nil_conv)

lemma ltrim_spaces: "list_all is_space w \<Longrightarrow> ltrim (w @ s) = ltrim s"
  by (induction w) (auto simp: ltrim_def)

lemma rtrim_spaces: "list_all is_space w \<Longrightarrow> rtrim (s @ w) = rtrim s"
  by (induction w rule: rev_induct) (auto simp: rtrim_def)

lemma rtrim_Cons:
  "rtrim (x # xs) = (if list_all is_space (x # xs) then [] else x # rtrim xs)"
  by (auto simp: rtrim_def dropWhile_append list_all_iff)

lemma ltrim_eq_fence_iff: "ltrim (u @ js ''```'') = js ''```'' \<longleftrightarrow> list_all is_space u"
proof
  assume "list_all is_space u"
  then show "ltrim (u @ js ''```'') = js ''```''"
    by (simp add: ltrim_spaces) (simp add: ltrim_def fence_eq backtick_not_space)
next
  assume a: "ltrim (u @ js ''```'') = js ''```''"
  have "ltrim (u @ js ''```'') = ltrim u @ js ''```''"
    by (rule ltrim_append_nonspace) (simp_all add: fence_eq backtick_not_space)
  with a have "ltrim u = []" by simp
  then show "list_all is_space u"
    by (simp add: ltrim_def list_all_iff)
qed

lemma replace_closing_fence: "replace_closing (u @ js ''```'') = rtrim u"
proof (induction u)
  case Nil
  show ?case by (simp add: fence_eq ltrim_def backtick_not_space rtrim_def)
next
  case (Cons x xs)
  have "ltrim ((x # xs) @ js ''```'') = js ''```'' \<longleftrightarrow> list_all is_space (x # xs)"
    by (rule ltrim_eq_fence_iff)
  with Cons show ?case by (simp add: rtrim_Cons)
qed

lemma trim_fenced:
  assumes "\<not> is_space (hd p)" "p \<noteq> []"
  shows "trim (p @ m @ js ''```'') = p @ m @ js ''```''"
proof -
  from assms have l: "ltrim (p @ m @ js ''```'') = p @ m @ js ''```''"
    by (cases p) (simp_all add: ltrim_def)
  have "rtrim ((p @ m @ [0x60, 0x60]) @ [0x60]) = (p @ m @ [0x60, 0x60]) @ [0x60]"
    unfolding rtrim_def by (simp add: backtick_not_space)
  with l show ?thesis by (simp add: trim_def fence_eq)
qed

lemma trim_spaces:
  "list_all is_space a \<Longrightarrow> list_all is_space b \<Longrightarrow> trim (a @ s @ b) = trim s"
proof -
  assume a: "list_all is_space a" and b: "list_all is_space b"
  show ?thesis
  proof (cases "list_all is_space s")
    case True
    with a b have "list_all is_space (a @ s @ b)" by simp
    then have "ltrim (a @ s @ b) = []" by (simp add: ltrim_def list_all_iff)
    moreover from True have "ltrim s = []" by (simp add: ltrim_def list_all_iff)
    ultimately show ?thesis by (simp add: trim_def)
  next
    case False
    then have "ltrim s \<noteq> []" by (simp add: ltrim_def list_all_iff)
    have "ltrim (a @ s @ b) = ltrim (s @ b)" using a by (rule ltrim_spaces)
    also have "\<dots> = ltrim s @ b" using False
      by (auto simp: ltrim_def dropWhile_append list_all_iff)
    finally show ?thesis using b by (simp add: trim_def rtrim_spaces)
  qed
qed


lemma ltrim_fence: "ltrim (m @ js ''```'') = ltrim m @ js ''```''"
  by (rule ltrim_append_nonspace) (simp_all add: fence_eq backtick_not_space)

lemma starts_append: "startsWith (p @ s) p"
  by (simp add: startsWith_def)

lemma cleaned_json_fence:
  assumes "list_all is_space a" "list_all is_space b"
  shows "cleanedText (a @ js ''```json'' @ m @ js ''```'' @ b) = trim m"
proof -
  have "\<not> is_space (hd (js ''```json''))" "js ''```json'' \<noteq> []"
    by (simp_all add: fence_json_eq backtick_not_space)
  then have "trim (js ''```json'' @ m @ js ''```'') = js ''```json'' @ m @ js ''```''"
    by (rule trim_fenced)
  with trim_spaces [OF assms, of "js ''```json'' @ m @ js ''```''"]
  have t: "trim (a @ js ''```json'' @ m @ js ''```'' @ b) = js ''```json'' @ m @ js ''```''"
    by simp
  have o: "replace_opening (js ''```json'') (js ''```json'' @ m @ js ''```'') = ltrim m @ js ''```''"
    by (simp add: replace_opening_def starts_append ltrim_fence)
  show ?thesis
    using t by (simp add: cleanedText_def starts_append o replace_closing_fence trim_def)
qed

lemma cleaned_plain_fence:
  assumes "list_all is_space a" "list_all is_space b" "m \<noteq> []" "hd m \<noteq> 0x6A"
  shows "cleanedText (a @ js ''```'' @ m @ js ''```'' @ b) = trim m"
proof -
  have "\<not> is_space (hd (js ''```''))" "js ''```'' \<noteq> []"
    by (simp_all add: fence_eq backtick_not_space)
  then have "trim (js ''```'' @ m @ js ''```'') = js ''```'' @ m @ js ''```''"
    by (rule trim_fenced)
  with trim_spaces [OF assms(1,2), of "js ''```'' @ m @ js ''```''"]
  have t: "trim (a @ js ''```'' @ m @ js ''```'' @ b) = js ''```'' @ m @ js ''```''"
    by simp
  have o: "replace_opening (js ''```'') (js ''```'' @ m @ js ''```'') = ltrim m @ js ''```''"
    by (simp add: replace_opening_def starts_append ltrim_fence)
  have n: "\<not> startsWith (js ''```'' @ m @ js ''```'') (js ''```json'')"
    using assms(3,4) by (cases m) (simp_all add: startsWith_def js_def)
  show ?thesis
    using t n by (simp add: cleanedText_def starts_append o replace_closing_fence trim_def)
qed

lemma begins_object_trim: "begins_object t \<Longrightarrow> cleanedText t = trim t"
proof -
  assume "begins_object t"
  then obtain r where l: "ltrim t = 0x7B # r"
    by (auto simp: begins_object_def split: list.splits)
  have "\<not> is_space 0x7B" by (simp add: is_space_def)
  then have "rtrim (0x7B # r) = 0x7B # rtrim r" by (simp add: rtrim_Cons)
  with l have "trim t = 0x7B # rtrim r" by (simp add: trim_def)
  then show ?thesis by (simp add: cleanedText_def startsWith_def js_def)
qed

lemma begins_object_head:
  assumes "begins_object t" "list_all is_space w"
  shows "w @ t @ v \<noteq> []" "hd (w @ t @ v) \<noteq> 0x6A"
proof -
  from assms(1) obtain r where l: "ltrim t = 0x7B # r"
    by (auto simp: begins_object_def split: list.splits)
  then have t: "t \<noteq> []" by (auto simp: ltrim_def)
  then show "w @ t @ v \<noteq> []" by simp
  have s: "\<not> is_space 0x6A" by (simp add: is_space_def)
  have "hd t \<noteq> 0x6A"
  proof (cases t)
    case Nil with t show ?thesis by simp
  next
    case (Cons c cs)
    with l s show ?thesis by (auto simp: ltrim_def split: if_splits)
  qed
  with assms(2) s t show "hd (w @ t @ v) \<noteq> 0x6A"
    by (cases w) auto
qed

text \<open>
  Claim C2. Let \<open>t\<close> be the text of a JSON object (its first code unit after white space is
  an opening brace). Wrapped in a \<^verbatim>\<open>```json\<close> fence, wrapped in a plain \<^verbatim>\<open>```\<close> fence, or
  padded with white space, the text handed to \<^verbatim>\<open>JSON.parse\<close> is the same as for \<open>t\<close> alone,
  so the Normalizer gives the same result, whatever \<^verbatim>\<open>JSON.parse\<close> does. White space is
  allowed between the fences and the text and around the whole.
\<close>

theorem fences_and_padding_are_transparent:
  assumes "begins_object t"
    and "list_all is_space a" and "list_all is_space b"
    and "list_all is_space w" and "list_all is_space v"
  shows "cleanedText (a @ js ''```json'' @ w @ t @ v @ js ''```'' @ b) = cleanedText t
     \<and> cleanedText (a @ js ''```'' @ w @ t @ v @ js ''```'' @ b) = cleanedText t
     \<and> cleanedText (a @ t @ b) = cleanedText t
     \<and> normalize P (a @ js ''```json'' @ w @ t @ v @ js ''```'' @ b) = normalize P t
     \<and> normalize P (a @ js ''```'' @ w @ t @ v @ js ''```'' @ b) = normalize P t
     \<and> normalize P (a @ t @ b) = normalize P t"
proof -
  have m: "trim (w @ t @ v) = trim t"
    using assms(4,5) by (rule trim_spaces)
  have 1: "cleanedText (a @ js ''```json'' @ (w @ t @ v) @ js ''```'' @ b) = trim (w @ t @ v)"
    using assms(2,3) by (rule cleaned_json_fence)
  have 2: "cleanedText (a @ js ''```'' @ (w @ t @ v) @ js ''```'' @ b) = trim (w @ t @ v)"
    using assms(2,3) begins_object_head [OF assms(1,4)] by (rule cleaned_plain_fence)
  have "trim (a @ t @ b) = trim t"
    using assms(2,3) by (rule trim_spaces)
  then have 3: "cleanedText (a @ t @ b) = cleanedText t"
    by (simp add: cleanedText_def)
  from 1 2 3 m begins_object_trim [OF assms(1)] show ?thesis
    by (simp add: normalize_def)
qed

theorem fences_and_padding_are_transparent_witness:
  "begins_object (js ''{}'') \<and> list_all is_space [0x0A]
   \<and> cleanedText (js ''```json'' @ [0x0A] @ js ''{}'' @ [0x0A] @ js ''```'') = js ''{}''
   \<and> cleanedText (js ''```'' @ [0x0A] @ js ''{}'' @ [0x0A] @ js ''```'') = js ''{}''
   \<and> normalize (table_platform [(js ''{}'', JObj [])] [])
         (js ''```json'' @ [0x0A] @ js ''{}'' @ [0x0A] @ js ''```'')
       = normalize (table_platform [(js ''{}'', JObj [])] []) (js ''{}'')"
proof -
  have b: "begins_object (js ''{}'')"
    by (simp add: begins_object_def ltrim_def js_def is_space_def)
  have n: "list_all is_space []" by simp
  have s: "list_all is_space [0x0A]" by (simp add: is_space_def)
  have c: "cleanedText (js ''{}'') = js ''{}''"
    by (simp add: cleanedText_def trim_def ltrim_def rtrim_def startsWith_def js_def is_space_def)
  from fences_and_padding_are_transparent [OF b n n s s, of "table_platform [(js ''{}'', JObj [])] []"]
    b s c show ?thesis by simp
qed

section \<open>The extraction flow\<close>

lemma answers_simps:
  "upload_result (answers u g c) = u" "generateText_result (answers u g c) = g"
  "create_result (answers u g c) = c"
  by (simp_all add: answers_def)

lemma flag_updates_append: "flag_updates (xs @ ys) = flag_updates xs @ flag_updates ys"
  by (induction xs rule: flag_updates.induct) simp_all

lemma published_append: "published (xs @ ys) = published xs @ published ys"
  by (induction xs rule: published.induct) simp_all

lemma steps_append: "steps (xs @ ys) = steps xs @ steps ys"
  by (induction xs rule: steps.induct) simp_all

lemma notifications_append: "notifications (xs @ ys) = notifications xs @ notifications ys"
  by (induction xs rule: notifications.induct) simp_all

lemma isAnalyzing_foldl:
  "isAnalyzing (foldl apply_event st evs) =
     (if flag_updates evs = [] then isAnalyzing st else last (flag_updates evs))"
proof (induction evs arbitrary: st)
  case Nil
  show ?case by simp
next
  case (Cons e evs)
  show ?case by (cases e) (simp_all add: Cons)
qed

lemma receiptData_foldl:
  "receiptData (foldl apply_event st evs) =
     (if published evs = [] then receiptData st else Some (last (published evs)))"
proof (induction evs arbitrary: st)
  case Nil
  show ?case by simp
next
  case (Cons e evs)
  show ?case by (cases e) (simp_all add: Cons)
qed

lemma parse_failed_views:
  "flag_updates (parse_failed e t c) = []"
  "published (parse_failed e t c) = []"
  "steps (parse_failed e t c) = []"
  "notifications (parse_failed e t c) =
     [Notification (js ''Analysis failed'') (js ''Could not parse the receipt data. Please try again.'') True]"
  by (simp_all add: parse_failed_def)

lemma analysis_failed_views:
  "flag_updates (analysis_failed e) = []"
  "published (analysis_failed e) = []"
  "steps (analysis_failed e) = []"
  "notifications (analysis_failed e) =
     [Notification (js ''Analysis failed'') (js ''Failed to analyze the receipt. Please try again.'') True]"
  by (simp_all add: analysis_failed_def)

lemma store_receipt_views:
  "flag_updates (store_receipt st env u v) = []"
  "published (store_receipt st env u v) = []"
  "notifications (store_receipt st env u v) = []"
  "steps (store_receipt st env u v) = [] \<or> steps (store_receipt st env u v) = [PersistStep]"
  by (simp_all add: store_receipt_def split: sum.splits)

lemma handle_response_flags: "flag_updates (handle_response P env st u t) = []"
  by (simp add: handle_response_def flag_updates_append parse_failed_views store_receipt_views
      split: sum.splits)

lemma handle_response_steps:
  "steps (handle_response P env st u t) \<in> {[], [PublishStep], [PublishStep, PersistStep]}"
  using store_receipt_views(4) [of st env u]
  by (auto simp: handle_response_def steps_append parse_failed_views split: sum.splits)

lemma required_fields_object:
  "required_fields (JObj kvs) =
     (if has_truthy kvs (js ''merchant'') \<and> has_truthy kvs (js ''total'') \<and> has_truthy kvs (js ''items'')
      then Inr () else Inl (Error (js ''Missing required fields in AI response'')))"
  by (simp add: required_fields_def and_then_def has_truthy_def split: option.splits)

lemma normalize_failure_events:
  assumes "upload_result env = Inr url" "generateText_result env = Inr text" "normalize P text = Inl e"
  shows "snd (analyzeReceipt P env st f) =
     [SetIsAnalyzing True, StorageUpload f (js ''receipts/'' @ file_name f),
      GenerateText (ExtractionRequest url)] @ parse_failed e text (cleanedText text) @
     [SetIsAnalyzing False]"
  using assms by (simp add: analyzeReceipt_def analyzeReceipt_events_def handle_response_def)

lemma normalize_success_events:
  assumes "upload_result env = Inr url" "generateText_result env = Inr text" "normalize P text = Inr v"
  shows "snd (analyzeReceipt P env st f) =
     [SetIsAnalyzing True, StorageUpload f (js ''receipts/'' @ file_name f),
      GenerateText (ExtractionRequest url), SetReceiptData v] @ store_receipt st env url v @
     (case success_toast P v of
        Inl e \<Rightarrow> parse_failed e text (cleanedText text)
      | Inr n \<Rightarrow> [Toast n]) @
     [SetIsAnalyzing False]"
  using assms by (simp add: analyzeReceipt_def analyzeReceipt_events_def handle_response_def)

lemma fst_analyzeReceipt:
  "fst (analyzeReceipt P env st f) = foldl apply_event st (snd (analyzeReceipt P env st f))"
  by (simp add: analyzeReceipt_def)

lemma store_receipt_warns:
  "create_result env = Inl e \<Longrightarrow>
   \<exists>e'. ConsoleWarn (js ''Failed to store receipt in database:'') e' \<in> set (store_receipt st env url v)"
  by (auto simp: store_receipt_def split: sum.splits)

text \<open>
  A complete run: the upload succeeds, the completion returns the fenced JSON of the receipt,
  the record is published and stored, and the notification names two items and the merchant.
\<close>

lemma scenario_A:
  "analyzeReceipt corner_store_platform
     (answers (Inr (js ''https://x/receipts/a.jpg''))
        (Inr corner_store_response) (Inr ()))
     signed_in photo
   = (signed_in\<lparr>receiptData := Some corner_store\<rparr>,
      [SetIsAnalyzing True,
       StorageUpload photo (js ''receipts/a.jpg''),
       GenerateText (ExtractionRequest (js ''https://x/receipts/a.jpg'')),
       SetReceiptData corner_store,
       DbCreate \<lparr>row_userId = js ''u1'', row_merchant = JStr (js ''Corner Store''),
                 row_date = JStr (js ''01/02/2024''), row_total = JNum (Finite (25 / 2)),
                 row_subtotal = JNum (Finite 0), row_tax = JNum (Finite 0),
                 row_items =
                   JArr [JObj [(js ''name'', JStr (js ''Milk'')), (js ''price'', JNum (Finite (7 / 2)))],
                         JObj [(js ''name'', JStr (js ''Bread'')), (js ''price'', JNum (Finite 9))]],
                 row_category = JStr (js ''Other''),
                 row_imageUrl = js ''https://x/receipts/a.jpg'',
                 row_createdAt = js ''2024-01-02T00:00:00.000Z''\<rparr>,
       Toast (Notification (js ''Receipt analyzed successfully!'')
                (js ''Found 2 items from Corner Store'') False),
       SetIsAnalyzing False])"
proof -
  have c: "cleanedText corner_store_response
             = corner_store_text"
    by (simp add: corner_store_response_def cleanedText_def trim_def ltrim_def rtrim_def startsWith_def replace_opening_def
        corner_store_text_def js_def is_space_def)
  have n: "normalize corner_store_platform
             corner_store_response = Inr corner_store"
    unfolding normalize_def c
    by (simp add: corner_store_platform_def table_platform_def corner_store_def required_fields_def
        and_then_def truthy_number_def js_def)
  have s: "store_receipt signed_in
             (answers (Inr (js ''https://x/receipts/a.jpg''))
                (Inr corner_store_response) (Inr ()))
             (js ''https://x/receipts/a.jpg'') corner_store
           = [DbCreate \<lparr>row_userId = js ''u1'', row_merchant = JStr (js ''Corner Store''),
                 row_date = JStr (js ''01/02/2024''), row_total = JNum (Finite (25 / 2)),
                 row_subtotal = JNum (Finite 0), row_tax = JNum (Finite 0),
                 row_items =
                   JArr [JObj [(js ''name'', JStr (js ''Milk'')), (js ''price'', JNum (Finite (7 / 2)))],
                         JObj [(js ''name'', JStr (js ''Bread'')), (js ''price'', JNum (Finite 9))]],
                 row_category = JStr (js ''Other''),
                 row_imageUrl = js ''https://x/receipts/a.jpg'',
                 row_createdAt = js ''2024-01-02T00:00:00.000Z''\<rparr>]"
    by (simp add: store_receipt_def create_argument_def signed_in_def answers_def corner_store_def
        and_then_def or_else_def js_def)
  have t: "success_toast corner_store_platform corner_store
           = Inr (Notification (js ''Receipt analyzed successfully!'')
                (js ''Found 2 items from Corner Store'') False)"
    by (simp add: success_toast_def corner_store_def corner_store_platform_def table_platform_def
        and_then_def js_def)
  show ?thesis
    by (simp add: analyzeReceipt_def analyzeReceipt_events_def handle_response_def n s t answers_simps)
       (simp add: photo_def signed_in_def js_def)
qed

text \<open>
  Claim C1. When the upload and the completion have succeeded and the cleaned response text is
  not valid JSON, or its parsed value does not pass the check of the required fields, the
  Normalizer fails, the error is logged, the failure notification is shown, no record is
  published and the stored record is the one from before the run.
\<close>

theorem invalid_response_publishes_nothing:
  assumes "upload_result env = Inr url" and "generateText_result env = Inr text"
    and "JSON_parse P (cleanedText text) = None
       \<or> (\<exists>v. JSON_parse P (cleanedText text) = Some v \<and> required_fields v \<noteq> Inr ())"
  shows "(\<exists>e. normalize P text = Inl e
          \<and> ConsoleError (js ''Failed to parse AI response:'') (LogExn e)
              \<in> set (snd (analyzeReceipt P env st f)))
     \<and> published (snd (analyzeReceipt P env st f)) = []
     \<and> receiptData (fst (analyzeReceipt P env st f)) = receiptData st
     \<and> notifications (snd (analyzeReceipt P env st f)) =
         [Notification (js ''Analysis failed'')
            (js ''Could not parse the receipt data. Please try again.'') True]"
proof -
  from assms(3) obtain e where e: "normalize P text = Inl e"
    by (cases "required_fields (the (JSON_parse P (cleanedText text)))")
       (auto simp: normalize_def and_then_def)
  note evs = normalize_failure_events [OF assms(1,2) e, of st f]
  have "ConsoleError (js ''Failed to parse AI response:'') (LogExn e)
          \<in> set (snd (analyzeReceipt P env st f))"
    by (simp add: evs parse_failed_def)
  moreover have p: "published (snd (analyzeReceipt P env st f)) = []"
    by (simp add: evs published_append parse_failed_views)
  moreover have "receiptData (fst (analyzeReceipt P env st f)) = receiptData st"
    by (simp add: fst_analyzeReceipt receiptData_foldl p)
  moreover have "notifications (snd (analyzeReceipt P env st f)) =
         [Notification (js ''Analysis failed'')
            (js ''Could not parse the receipt data. Please try again.'') True]"
    by (simp add: evs notifications_append parse_failed_views)
  ultimately show ?thesis using e by blast
qed

theorem invalid_response_publishes_nothing_witness:
  "upload_result (answers (Inr (js ''https://x/a.jpg'')) (Inr (js ''oops'')) (Inr ())) = Inr (js ''https://x/a.jpg'')
   \<and> JSON_parse (table_platform [] []) (cleanedText (js ''oops'')) = None
   \<and> published (snd (analyzeReceipt (table_platform [] [])
        (answers (Inr (js ''https://x/a.jpg'')) (Inr (js ''oops'')) (Inr ())) signed_in photo)) = []
   \<and> receiptData (fst (analyzeReceipt (table_platform [] [])
        (answers (Inr (js ''https://x/a.jpg'')) (Inr (js ''oops'')) (Inr ())) signed_in photo)) = None"
proof -
  have p: "JSON_parse (table_platform [] []) (cleanedText (js ''oops'')) = None"
    by (simp add: table_platform_def)
  then have "JSON_parse (table_platform [] []) (cleanedText (js ''oops'')) = None
       \<or> (\<exists>v. JSON_parse (table_platform [] []) (cleanedText (js ''oops'')) = Some v
              \<and> required_fields v \<noteq> Inr ())" by simp
  from invalid_response_publishes_nothing [OF answers_simps(1) answers_simps(2) this, where st = signed_in and f = photo] p
  show ?thesis by (simp add: answers_simps signed_in_def)
qed

text \<open>
  Claim C3. For a response that parses to an object: if \<^verbatim>\<open>merchant\<close>, \<^verbatim>\<open>total\<close> or
  \<^verbatim>\<open>items\<close> is missing, the Normalizer fails with the error of the missing fields; it
  succeeds exactly when the three fields are present and truthy; and the record it publishes
  is the parsed object itself, unchanged.
\<close>

theorem validation_requires_truthy_fields:
  assumes "JSON_parse P (cleanedText text) = Some (JObj kvs)"
    and "upload_result env = Inr url" and "generateText_result env = Inr text"
  shows "(map_of kvs (js ''merchant'') = None \<or> map_of kvs (js ''total'') = None
            \<or> map_of kvs (js ''items'') = None \<longrightarrow>
          normalize P text = Inl (Error (js ''Missing required fields in AI response'')))
     \<and> normalize P text =
         (if has_truthy kvs (js ''merchant'') \<and> has_truthy kvs (js ''total'')
             \<and> has_truthy kvs (js ''items'')
          then Inr (JObj kvs) else Inl (Error (js ''Missing required fields in AI response'')))
     \<and> published (snd (analyzeReceipt P env st f)) =
         (if has_truthy kvs (js ''merchant'') \<and> has_truthy kvs (js ''total'')
             \<and> has_truthy kvs (js ''items'')
          then [JObj kvs] else [])
     \<and> receiptData (fst (analyzeReceipt P env st f)) =
         (if has_truthy kvs (js ''merchant'') \<and> has_truthy kvs (js ''total'')
             \<and> has_truthy kvs (js ''items'')
          then Some (JObj kvs) else receiptData st)"
proof -
  let ?valid = "has_truthy kvs (js ''merchant'') \<and> has_truthy kvs (js ''total'')
             \<and> has_truthy kvs (js ''items'')"
  have n: "normalize P text =
         (if ?valid then Inr (JObj kvs) else Inl (Error (js ''Missing required fields in AI response'')))"
    using assms(1) by (simp add: normalize_def required_fields_object and_then_def)
  have m: "map_of kvs (js ''merchant'') = None \<or> map_of kvs (js ''total'') = None
            \<or> map_of kvs (js ''items'') = None \<longrightarrow>
          normalize P text = Inl (Error (js ''Missing required fields in AI response''))"
    unfolding n by (auto simp: has_truthy_def)
  have p: "published (snd (analyzeReceipt P env st f)) = (if ?valid then [JObj kvs] else [])"
  proof (cases ?valid)
    case True
    with n have v: "normalize P text = Inr (JObj kvs)" by simp
    show ?thesis
      using True by (simp add: normalize_success_events [OF assms(2,3) v] published_append
          store_receipt_views parse_failed_views split: sum.splits)
  next
    case False
    with n have e: "normalize P text = Inl (Error (js ''Missing required fields in AI response''))"
      by simp
    show ?thesis
      using False by (simp add: normalize_failure_events [OF assms(2,3) e] published_append
          parse_failed_views)
  qed
  have "receiptData (fst (analyzeReceipt P env st f)) =
         (if ?valid then Some (JObj kvs) else receiptData st)"
    by (simp add: fst_analyzeReceipt receiptData_foldl p)
  with n m p show ?thesis by blast
qed

theorem validation_requires_truthy_fields_witness:
  "JSON_parse (table_platform [(js ''{\"merchant\":\"Shop\"}'', JObj [(js ''merchant'', JStr (js ''Shop''))])] [])
     (cleanedText (js ''{\"merchant\":\"Shop\"}'')) = Some (JObj [(js ''merchant'', JStr (js ''Shop''))])
   \<and> map_of [(js ''merchant'', JStr (js ''Shop''))] (js ''total'') = None
   \<and> normalize (table_platform [(js ''{\"merchant\":\"Shop\"}'', JObj [(js ''merchant'', JStr (js ''Shop''))])] [])
       (js ''{\"merchant\":\"Shop\"}'') = Inl (Error (js ''Missing required fields in AI response''))
   \<and> published (snd (analyzeReceipt
        (table_platform [(js ''{\"merchant\":\"Shop\"}'', JObj [(js ''merchant'', JStr (js ''Shop''))])] [])
        (answers (Inr (js ''https://x/a.jpg'')) (Inr (js ''{\"merchant\":\"Shop\"}'')) (Inr ()))
        signed_in photo)) = []"
proof -
  let ?t = "js ''{\"merchant\":\"Shop\"}''"
  let ?kvs = "[(js ''merchant'', JStr (js ''Shop''))]"
  let ?P = "table_platform [(?t, JObj ?kvs)] []"
  have c: "cleanedText ?t = ?t"
    by (simp add: cleanedText_def trim_def ltrim_def rtrim_def startsWith_def js_def is_space_def)
  have p: "JSON_parse ?P (cleanedText ?t) = Some (JObj ?kvs)"
    by (simp add: c table_platform_def)
  have t: "map_of ?kvs (js ''total'') = None"
    by (simp add: js_def)
  have h: "\<not> has_truthy ?kvs (js ''total'')"
    by (simp add: has_truthy_def js_def)
  from validation_requires_truthy_fields [OF p answers_simps(1) answers_simps(2),
      where st = signed_in and f = photo] p t h
  show ?thesis by simp
qed

text \<open>
  Claim C10. For a response that parses to an object with the three keys present in which
  \<^verbatim>\<open>merchant\<close> is the empty string or \<^verbatim>\<open>total\<close> is zero, the Normalizer fails with the
  error of the missing fields and no record is published.
\<close>

theorem falsy_merchant_or_total_is_rejected:
  assumes "JSON_parse P (cleanedText text) = Some (JObj kvs)"
    and "map_of kvs (js ''merchant'') = Some m" and "map_of kvs (js ''total'') = Some t"
    and "map_of kvs (js ''items'') = Some i"
    and "m = JStr [] \<or> t = JNum (Finite 0)"
    and "upload_result env = Inr url" and "generateText_result env = Inr text"
  shows "normalize P text = Inl (Error (js ''Missing required fields in AI response''))
     \<and> published (snd (analyzeReceipt P env st f)) = []
     \<and> receiptData (fst (analyzeReceipt P env st f)) = receiptData st"
proof -
  from assms(2,3,5) have "\<not> (has_truthy kvs (js ''merchant'') \<and> has_truthy kvs (js ''total''))"
    by (auto simp: has_truthy_def truthy_number_def)
  with assms(1) have n: "normalize P text = Inl (Error (js ''Missing required fields in AI response''))"
    by (auto simp: normalize_def required_fields_object and_then_def)
  have p: "published (snd (analyzeReceipt P env st f)) = []"
    by (simp add: normalize_failure_events [OF assms(6,7) n] published_append parse_failed_views)
  with n show ?thesis by (simp add: fst_analyzeReceipt receiptData_foldl)
qed

theorem falsy_merchant_or_total_is_rejected_witness:
  "JSON_parse
     (table_platform [(js ''{\"merchant\":\"\",\"total\":1,\"items\":[]}'',
        JObj [(js ''merchant'', JStr []), (js ''total'', JNum (Finite 1)), (js ''items'', JArr [])])] [])
     (cleanedText (js ''{\"merchant\":\"\",\"total\":1,\"items\":[]}''))
     = Some (JObj [(js ''merchant'', JStr []), (js ''total'', JNum (Finite 1)), (js ''items'', JArr [])])
   \<and> normalize
     (table_platform [(js ''{\"merchant\":\"\",\"total\":1,\"items\":[]}'',
        JObj [(js ''merchant'', JStr []), (js ''total'', JNum (Finite 1)), (js ''items'', JArr [])])] [])
     (js ''{\"merchant\":\"\",\"total\":1,\"items\":[]}'')
     = Inl (Error (js ''Missing required fields in AI response''))
   \<and> published (snd (analyzeReceipt
     (table_platform [(js ''{\"merchant\":\"\",\"total\":1,\"items\":[]}'',
        JObj [(js ''merchant'', JStr []), (js ''total'', JNum (Finite 1)), (js ''items'', JArr [])])] [])
     (answers (Inr (js ''https://x/a.jpg'')) (Inr (js ''{\"merchant\":\"\",\"total\":1,\"items\":[]}'')) (Inr ()))
     signed_in photo)) = []"
proof -
  let ?t = "js ''{\"merchant\":\"\",\"total\":1,\"items\":[]}''"
  let ?kvs = "[(js ''merchant'', JStr []), (js ''total'', JNum (Finite 1)), (js ''items'', JArr [])]"
  let ?P = "table_platform [(?t, JObj ?kvs)] []"
  have c: "cleanedText ?t = ?t"
    by (simp add: cleanedText_def trim_def ltrim_def rtrim_def startsWith_def js_def is_space_def)
  have p: "JSON_parse ?P (cleanedText ?t) = Some (JObj ?kvs)"
    by (simp add: c table_platform_def)
  have 1: "map_of ?kvs (js ''merchant'') = Some (JStr [])" by simp
  have 2: "map_of ?kvs (js ''total'') = Some (JNum (Finite 1))" by (simp add: js_def)
  have 3: "map_of ?kvs (js ''items'') = Some (JArr [])" by (simp add: js_def)
  have 4: "JStr [] = JStr [] \<or> JNum (Finite 1) = JNum (Finite 0)" by simp
  from falsy_merchant_or_total_is_rejected [OF p 1 2 3 4 answers_simps(1) answers_simps(2),
      where st = signed_in and f = photo] p
  show ?thesis by simp
qed

text \<open>
  Claim C5. In every run that ends, whatever the collaborators answer, the analyzing flag is
  set exactly twice: to true by the first event and to false by the last, and it is false in
  the state after the run.
\<close>

theorem flag_cleared_on_every_path:
  "flag_updates (snd (analyzeReceipt P env st f)) = [True, False]
   \<and> hd (snd (analyzeReceipt P env st f)) = SetIsAnalyzing True
   \<and> last (snd (analyzeReceipt P env st f)) = SetIsAnalyzing False
   \<and> isAnalyzing (fst (analyzeReceipt P env st f)) = False"
  by (simp add: analyzeReceipt_def analyzeReceipt_events_def isAnalyzing_foldl flag_updates_append
      analysis_failed_views handle_response_flags split: sum.splits)

text \<open>
  Claim C7. The steps of a run are a prefix of upload, completion, publication, persistence,
  in this order, starting with the upload. When the upload fails the upload is the only step:
  no completion is requested, the failure notification is shown, the analyzing flag is false
  afterwards and the stored record is unchanged.
\<close>

theorem steps_in_order:
  "steps (snd (analyzeReceipt P env st f)) \<in>
     {[UploadStep], [UploadStep, CompletionStep], [UploadStep, CompletionStep, PublishStep],
      [UploadStep, CompletionStep, PublishStep, PersistStep]}
   \<and> (upload_result env = Inl e \<longrightarrow>
        steps (snd (analyzeReceipt P env st f)) = [UploadStep]
        \<and> notifications (snd (analyzeReceipt P env st f)) =
            [Notification (js ''Analysis failed'') (js ''Failed to analyze the receipt. Please try again.'') True]
        \<and> isAnalyzing (fst (analyzeReceipt P env st f)) = False
        \<and> receiptData (fst (analyzeReceipt P env st f)) = receiptData st)"
  using handle_response_steps [of P env st _ _]
  by (auto simp: analyzeReceipt_def analyzeReceipt_events_def isAnalyzing_foldl receiptData_foldl
      flag_updates_append steps_append notifications_append published_append
      analysis_failed_views handle_response_flags split: sum.splits)

theorem steps_in_order_witness:
  "upload_result (answers (Inl (Rejected (js ''offline''))) (Inr (js ''{}'')) (Inr ()))
     = Inl (Rejected (js ''offline''))
   \<and> steps (snd (analyzeReceipt (table_platform [] [])
        (answers (Inl (Rejected (js ''offline''))) (Inr (js ''{}'')) (Inr ())) signed_in photo))
     = [UploadStep]
   \<and> isAnalyzing (fst (analyzeReceipt (table_platform [] [])
        (answers (Inl (Rejected (js ''offline''))) (Inr (js ''{}'')) (Inr ())) signed_in photo))
     = False"
  using steps_in_order [where env = "answers (Inl (Rejected (js ''offline''))) (Inr (js ''{}'')) (Inr ())"
      and e = "Rejected (js ''offline'')" and P = "table_platform [] []" and st = signed_in and f = photo]
  by (simp add: answers_simps)

text \<open>
  What the database answers changes nothing but the warning: the notifications, the published
  record and the stored record of a run are the same for every answer.
\<close>

lemma database_answer_changes_only_the_warning:
  "notifications (snd (analyzeReceipt P (env\<lparr>create_result := c\<rparr>) st f))
     = notifications (snd (analyzeReceipt P env st f))
   \<and> published (snd (analyzeReceipt P (env\<lparr>create_result := c\<rparr>) st f))
     = published (snd (analyzeReceipt P env st f))
   \<and> receiptData (fst (analyzeReceipt P (env\<lparr>create_result := c\<rparr>) st f))
     = receiptData (fst (analyzeReceipt P env st f))"
proof -
  have n: "notifications (snd (analyzeReceipt P (env\<lparr>create_result := c\<rparr>) st f))
     = notifications (snd (analyzeReceipt P env st f))"
    by (simp add: analyzeReceipt_def analyzeReceipt_events_def handle_response_def
        notifications_append store_receipt_views split: sum.splits)
  have p: "published (snd (analyzeReceipt P (env\<lparr>create_result := c\<rparr>) st f))
     = published (snd (analyzeReceipt P env st f))"
    by (simp add: analyzeReceipt_def analyzeReceipt_events_def handle_response_def
        published_append store_receipt_views split: sum.splits)
  from n p show ?thesis
    by (simp add: fst_analyzeReceipt receiptData_foldl)
qed

text \<open>
  When the Normalizer succeeds and the database call fails, the record is published, a warning
  is logged and the analyzing flag is false afterwards; and when the item count and the
  merchant convert to text, the only notification is the success notification naming them.
\<close>

lemma persistence_failure_is_swallowed:
  assumes "upload_result env = Inr url" and "generateText_result env = Inr text"
    and "normalize P text = Inr v" and "create_result env = Inl e"
  shows "published (snd (analyzeReceipt P env st f)) = [v]
     \<and> receiptData (fst (analyzeReceipt P env st f)) = Some v
     \<and> isAnalyzing (fst (analyzeReceipt P env st f)) = False
     \<and> (\<exists>e'. ConsoleWarn (js ''Failed to store receipt in database:'') e'
              \<in> set (snd (analyzeReceipt P env st f)))
     \<and> (get_prop v (js ''items'') = Inr i \<and> get_prop i (js ''length'') = Inr n
          \<and> to_string P n = Inr cnt
          \<and> get_prop v (js ''merchant'') = Inr m \<and> to_string P m = Inr who \<longrightarrow>
        notifications (snd (analyzeReceipt P env st f)) =
          [Notification (js ''Receipt analyzed successfully!'')
             (js ''Found '' @ cnt @ js '' items from '' @ who) False])"
proof -
  note evs = normalize_success_events [OF assms(1,2,3), of st f]
  have p: "published (snd (analyzeReceipt P env st f)) = [v]"
    by (simp add: evs published_append store_receipt_views parse_failed_views split: sum.splits)
  then have r: "receiptData (fst (analyzeReceipt P env st f)) = Some v"
    by (simp add: fst_analyzeReceipt receiptData_foldl)
  have a: "isAnalyzing (fst (analyzeReceipt P env st f)) = False"
    by (simp add: fst_analyzeReceipt isAnalyzing_foldl evs flag_updates_append store_receipt_views
        parse_failed_views split: sum.splits)
  from store_receipt_warns [OF assms(4), of st url v]
  have w: "\<exists>e'. ConsoleWarn (js ''Failed to store receipt in database:'') e'
              \<in> set (snd (analyzeReceipt P env st f))"
    by (auto simp: evs)
  have "notifications (snd (analyzeReceipt P env st f)) =
          [Notification (js ''Receipt analyzed successfully!'')
             (js ''Found '' @ cnt @ js '' items from '' @ who) False]"
    if "get_prop v (js ''items'') = Inr i" "get_prop i (js ''length'') = Inr n"
       "to_string P n = Inr cnt" "get_prop v (js ''merchant'') = Inr m" "to_string P m = Inr who"
  proof -
    from that have "success_toast P v = Inr (Notification (js ''Receipt analyzed successfully!'')
             (js ''Found '' @ cnt @ js '' items from '' @ who) False)"
      by (simp add: success_toast_def and_then_def)
    then show ?thesis
      by (simp add: evs notifications_append store_receipt_views)
  qed
  with p r a w show ?thesis by blast
qed

lemma persistence_failure_is_swallowed_example:
  "normalize
     (table_platform [(js ''{\"merchant\":\"Shop\",\"total\":5,\"items\":[]}'',
        JObj [(js ''merchant'', JStr (js ''Shop'')), (js ''total'', JNum (Finite 5)), (js ''items'', JArr [])])]
        [(Finite 0, js ''0'')])
     (js ''{\"merchant\":\"Shop\",\"total\":5,\"items\":[]}'')
     = Inr (JObj [(js ''merchant'', JStr (js ''Shop'')), (js ''total'', JNum (Finite 5)), (js ''items'', JArr [])])
   \<and> receiptData (fst (analyzeReceipt
     (table_platform [(js ''{\"merchant\":\"Shop\",\"total\":5,\"items\":[]}'',
        JObj [(js ''merchant'', JStr (js ''Shop'')), (js ''total'', JNum (Finite 5)), (js ''items'', JArr [])])]
        [(Finite 0, js ''0'')])
     (answers (Inr (js ''https://x/a.jpg'')) (Inr (js ''{\"merchant\":\"Shop\",\"total\":5,\"items\":[]}''))
        (Inl (Rejected (js ''unavailable''))))
     signed_in photo))
     = Some (JObj [(js ''merchant'', JStr (js ''Shop'')), (js ''total'', JNum (Finite 5)), (js ''items'', JArr [])])
   \<and> notifications (snd (analyzeReceipt
     (table_platform [(js ''{\"merchant\":\"Shop\",\"total\":5,\"items\":[]}'',
        JObj [(js ''merchant'', JStr (js ''Shop'')), (js ''total'', JNum (Finite 5)), (js ''items'', JArr [])])]
        [(Finite 0, js ''0'')])
     (answers (Inr (js ''https://x/a.jpg'')) (Inr (js ''{\"merchant\":\"Shop\",\"total\":5,\"items\":[]}''))
        (Inl (Rejected (js ''unavailable''))))
     signed_in photo))
     = [Notification (js ''Receipt analyzed successfully!'') (js ''Found 0 items from Shop'') False]"
proof -
  let ?t = "js ''{\"merchant\":\"Shop\",\"total\":5,\"items\":[]}''"
  let ?v = "JObj [(js ''merchant'', JStr (js ''Shop'')), (js ''total'', JNum (Finite 5)), (js ''items'', JArr [])]"
  let ?P = "table_platform [(?t, ?v)] [(Finite 0, js ''0'')]"
  have c: "cleanedText ?t = ?t"
    by (simp add: cleanedText_def trim_def ltrim_def rtrim_def startsWith_def js_def is_space_def)
  have r: "required_fields ?v = Inr ()"
    by (simp add: required_fields_object has_truthy_def truthy_number_def js_def)
  have n: "normalize ?P ?t = Inr ?v"
    by (simp add: normalize_def c table_platform_def r and_then_def)
  have i: "get_prop ?v (js ''items'') = Inr (JArr [])" by (simp add: js_def)
  have l: "get_prop (JArr []) (js ''length'') = Inr (JNum (Finite 0))" by simp
  have s: "to_string ?P (JNum (Finite 0)) = Inr (js ''0'')" by (simp add: table_platform_def)
  have m: "get_prop ?v (js ''merchant'') = Inr (JStr (js ''Shop''))" by simp
  have w: "to_string ?P (JStr (js ''Shop'')) = Inr (js ''Shop'')" by simp
  have d: "js ''Found '' @ js ''0'' @ js '' items from '' @ js ''Shop'' = js ''Found 0 items from Shop''"
    by (simp add: js_def)
  from persistence_failure_is_swallowed [OF answers_simps(1) answers_simps(2) n answers_simps(3),
      where st = signed_in and f = photo and i = "JArr []" and n = "JNum (Finite 0)"
        and cnt = "js ''0''" and m = "JStr (js ''Shop'')" and who = "js ''Shop''"]
    n i l s m w d
  show ?thesis by simp
qed

text \<open>
  Claim C6 at the response \<^verbatim>\<open>{"merchant":{"toString":1},"total":1,"items":[]}\<close>, with the
  database call failing. The check of the required fields passes, the record is published
  and the failure of the database call is logged and swallowed, as the claim says. The merchant
  is an object with an own \<^verbatim>\<open>toString\<close> property and does not convert to text, so the
  template literal of the success notification throws after the publication; the
  \<^verbatim>\<open>catch (parseError)\<close> block shows the failure notification, and the success
  notification of the claim is never emitted.
\<close>

theorem success_notification_lost_after_publication:
  "normalize
     (table_platform
        [(js ''{\"merchant\":{\"toString\":1},\"total\":1,\"items\":[]}'',
          JObj [(js ''merchant'', JObj [(js ''toString'', JNum (Finite 1))]),
                (js ''total'', JNum (Finite 1)), (js ''items'', JArr [])])]
        [(Finite 0, js ''0'')])
     (js ''{\"merchant\":{\"toString\":1},\"total\":1,\"items\":[]}'')
     = Inr (JObj [(js ''merchant'', JObj [(js ''toString'', JNum (Finite 1))]),
                (js ''total'', JNum (Finite 1)), (js ''items'', JArr [])])
   \<and> published (snd (analyzeReceipt
     (table_platform
        [(js ''{\"merchant\":{\"toString\":1},\"total\":1,\"items\":[]}'',
          JObj [(js ''merchant'', JObj [(js ''toString'', JNum (Finite 1))]),
                (js ''total'', JNum (Finite 1)), (js ''items'', JArr [])])]
        [(Finite 0, js ''0'')])
     (answers (Inr (js ''https://x/a.jpg''))
        (Inr (js ''{\"merchant\":{\"toString\":1},\"total\":1,\"items\":[]}''))
        (Inl (Rejected (js ''unavailable''))))
     signed_in photo))
     = [JObj [(js ''merchant'', JObj [(js ''toString'', JNum (Finite 1))]),
              (js ''total'', JNum (Finite 1)), (js ''items'', JArr [])]]
   \<and> notifications (snd (analyzeReceipt
     (table_platform
        [(js ''{\"merchant\":{\"toString\":1},\"total\":1,\"items\":[]}'',
          JObj [(js ''merchant'', JObj [(js ''toString'', JNum (Finite 1))]),
                (js ''total'', JNum (Finite 1)), (js ''items'', JArr [])])]
        [(Finite 0, js ''0'')])
     (answers (Inr (js ''https://x/a.jpg''))
        (Inr (js ''{\"merchant\":{\"toString\":1},\"total\":1,\"items\":[]}''))
        (Inl (Rejected (js ''unavailable''))))
     signed_in photo))
     = [Notification (js ''Analysis failed'')
          (js ''Could not parse the receipt data. Please try again.'') True]"
proof -
  let ?t = "js ''{\"merchant\":{\"toString\":1},\"total\":1,\"items\":[]}''"
  have c: "cleanedText ?t = ?t"
    by (simp add: cleanedText_def trim_def ltrim_def rtrim_def startsWith_def js_def is_space_def)
  show ?thesis
    apply (simp add: c analyzeReceipt_def analyzeReceipt_events_def handle_response_def
        normalize_def table_platform_def answers_def)
    apply (simp add: required_fields_def and_then_def js_def truthy_number_def success_toast_def
        store_receipt_def create_argument_def signed_in_def parse_failed_def)
    done
qed

section \<open>The chat bridge\<close>

text \<open>
  Claim C8. While no record is stored, a chat message is answered with the fixed instruction
  and nothing else happens: no completion is requested.
\<close>

theorem chat_without_record:
  "receiptData st = None \<Longrightarrow>
   handleChatMessage P env st message =
     (js ''Please upload a receipt first to start chatting about it.'', [])"
  by (simp add: handleChatMessage_def)

theorem chat_without_record_witness:
  "receiptData signed_in = None
   \<and> handleChatMessage (table_platform [] []) (answers (Inr []) (Inr (js ''hello'')) (Inr ()))
        signed_in (js ''How much did I spend?'')
     = (js ''Please upload a receipt first to start chatting about it.'', [])"
proof -
  have n: "receiptData signed_in = None" by (simp add: signed_in_def)
  from chat_without_record [OF n] n show ?thesis by simp
qed

text \<open>
  With the receipt stored, the prompt carries each item as name and price, and the reply of the
  completion is returned as it is.
\<close>

lemma scenario_D:
  "handleChatMessage corner_store_platform
     (answers (Inr []) (Inr (js ''You spent $3.50 on dairy.'')) (Inr ()))
     (signed_in\<lparr>receiptData := Some corner_store\<rparr>)
     (js ''How much did I spend on dairy?'')
   = (js ''You spent $3.50 on dairy.'',
      [GenerateText (ChatRequest
         \<lparr>prompt_merchant = js ''Corner Store'', prompt_date = js ''01/02/2024'',
          prompt_total = js ''12.5'', prompt_items = js ''Milk - $3.5, Bread - $9'',
          prompt_category = js ''undefined'',
          prompt_question = js ''How much did I spend on dairy?''\<rparr>)])"
  by (simp add: handleChatMessage_def build_prompt_def items_text_def item_text_def corner_store_def
      corner_store_platform_def table_platform_def and_then_def answers_simps js_def)

section \<open>File intake\<close>

lemma handleDrop_forwards_images_only:
  "OnUpload f \<in> set (snd (handleDrop files st)) \<Longrightarrow> startsWith (file_type f) (js ''image/'')"
  by (auto simp: handleDrop_def split: option.splits if_splits)

text \<open>
  Claim C4 at a file that is not an image, delivered by the file picker: the change handler
  records it as the selected file and forwards it, where the drop handler ignores it; the run
  it is forwarded to begins by uploading it.
\<close>

theorem file_picker_forwards_any_type:
  "\<not> startsWith (file_type \<lparr>file_name = js ''invoice.pdf'', file_type = js ''application/pdf''\<rparr>)
        (js ''image/'')
   \<and> handleFileSelect (Some [\<lparr>file_name = js ''invoice.pdf'', file_type = js ''application/pdf''\<rparr>])
        \<lparr>dragActive = False, selectedFile = None\<rparr>
     = (\<lparr>dragActive = False,
         selectedFile = Some \<lparr>file_name = js ''invoice.pdf'', file_type = js ''application/pdf''\<rparr>\<rparr>,
        [OnUpload \<lparr>file_name = js ''invoice.pdf'', file_type = js ''application/pdf''\<rparr>])
   \<and> handleDrop (Some [\<lparr>file_name = js ''invoice.pdf'', file_type = js ''application/pdf''\<rparr>])
        \<lparr>dragActive = False, selectedFile = None\<rparr>
     = (\<lparr>dragActive = False, selectedFile = None\<rparr>, [PreventDefault, StopPropagation])
   \<and> take 2 (snd (analyzeReceipt P env st
        \<lparr>file_name = js ''invoice.pdf'', file_type = js ''application/pdf''\<rparr>))
     = [SetIsAnalyzing True,
        StorageUpload \<lparr>file_name = js ''invoice.pdf'', file_type = js ''application/pdf''\<rparr>
          (js ''receipts/invoice.pdf'')]"
  by (simp add: handleFileSelect_def handleDrop_def first_file_def startsWith_def
      analyzeReceipt_def analyzeReceipt_events_def js_def)

section \<open>The renderer\<close>

text \<open>
  Claim C9, as the code has it. For a record that is shown, the totals breakdown has the
  subtotal line exactly when the subtotal is present and truthy, the tax line exactly when
  the tax is present and truthy, and it ends with the separator and the total line.
\<close>

theorem totals_show_truthy_amounts:
  "ReceiptAnalysis (Some d) False =
     Analysis \<lparr>merchant_tile = merchant d, date_tile = date d, total_tile = total d,
               category_badge = when_string (category d) Badge,
               item_rows = map render_item (items d), totals_breakdown = totals d\<rparr>
   \<and> (AmountLine (js ''Subtotal'') x \<in> set (totals d) \<longleftrightarrow> subtotal d = Some x \<and> truthy_number x)
   \<and> (AmountLine (js ''Tax'') y \<in> set (totals d) \<longleftrightarrow> tax d = Some y \<and> truthy_number y)
   \<and> length (totals d) = 4
   \<and> drop 2 (totals d) = [Separator, TotalLine (total d)]"
  by (auto simp: ReceiptAnalysis_def totals_def when_number_def js_def split: option.splits)

text \<open>
  Claim C9 as stated fails: a record whose tax is present and zero is shown without a tax
  line.
\<close>

theorem zero_tax_line_counterexample:
  "ReceiptAnalysis
     (Some \<lparr>merchant = js ''Shop'', date = js ''01/02/2024'', total = Finite 5,
            subtotal = Some (Finite 5), tax = Some (Finite 0), items = [], category = None\<rparr>)
     False
   = Analysis \<lparr>merchant_tile = js ''Shop'', date_tile = js ''01/02/2024'', total_tile = Finite 5,
               category_badge = Nothing, item_rows = [],
               totals_breakdown =
                 [AmountLine (js ''Subtotal'') (Finite 5), NumberText (Finite 0), Separator,
                  TotalLine (Finite 5)]\<rparr>"
  by (simp add: ReceiptAnalysis_def totals_def when_number_def when_string_def truthy_number_def)

end
